theory Spec2Isabelle
  imports Main
begin

section \<open>Time, strings and exceptions\<close>

text \<open>
  A Python \<open>datetime\<close> is naive and has microsecond resolution; it is modelled as the
  number of microseconds since \<open>datetime.min\<close> (0001-01-01T00:00:00). The largest value
  is \<open>datetime.max\<close> (9999-12-31T23:59:59.999999). The license table stores
  \<open>expires_at\<close> as ISO text and every reader parses it back with
  \<open>datetime.fromisoformat\<close>; that round trip is lossless, so the column holds the
  \<open>datetime\<close> itself here.
\<close>

type_synonym datetime = int

datatype py_error = OverflowError | IntegrityError

definition DATETIME_MAX :: datetime where
  "DATETIME_MAX = 3652059 * 86400 * 1000000 - 1"

definition MAX_DELTA_DAYS :: int where
  "MAX_DELTA_DAYS = 999999999"

text \<open>\<open>timedelta(days=d)\<close>, in microseconds; Python raises OverflowError beyond
  \<open>MAX_DELTA_DAYS\<close>.\<close>

definition timedelta :: "int \<Rightarrow> py_error + int" where
  "timedelta days =
     (if \<bar>days\<bar> > MAX_DELTA_DAYS then Inl OverflowError
      else Inr (days * 86400 * 1000000))"

text \<open>\<open>t + timedelta(days=d)\<close>; Python raises OverflowError when the sum leaves the range
  of \<open>datetime\<close>.\<close>

definition datetime_plus_days :: "datetime \<Rightarrow> int \<Rightarrow> py_error + datetime" where
  "datetime_plus_days t days =
     (case timedelta days of
        Inl e \<Rightarrow> Inl e
      | Inr delta \<Rightarrow>
          (if 0 \<le> t + delta \<and> t + delta \<le> DATETIME_MAX then Inr (t + delta)
           else Inl OverflowError))"

definition ascii_lowercase :: string where
  "ascii_lowercase = ''abcdefghijklmnopqrstuvwxyz''"

definition ascii_uppercase :: string where
  "ascii_uppercase = ''ABCDEFGHIJKLMNOPQRSTUVWXYZ''"

definition digits :: string where
  "digits = ''0123456789''"

text \<open>\<open>str.upper()\<close> on the ASCII letters; every other character is left as it is.\<close>

definition upper_char :: "char \<Rightarrow> char" where
  "upper_char c =
     (case map_of (zip ascii_lowercase ascii_uppercase) c of Some u \<Rightarrow> u | None \<Rightarrow> c)"

definition upper :: "string \<Rightarrow> string" where
  "upper s = map upper_char s"

text \<open>\<open>sep.join(parts)\<close>.\<close>

fun join :: "string \<Rightarrow> string list \<Rightarrow> string" where
  "join sep [] = []"
| "join sep [p] = p"
| "join sep (p # q # ps) = p @ sep @ join sep (q # ps)"

section \<open>The database\<close>

text \<open>
  The two tables of \<open>init_database\<close>. The columns filled by the database itself
  (\<open>id\<close>, \<open>created_at\<close>, the log's \<open>timestamp\<close>) are read by no decision of the
  handlers and are left out. A NULL column is \<open>None\<close>.
\<close>

record license =
  license_key :: string
  device_id :: "string option"
  user_name :: "string option"
  telegram_user_id :: "int option"
  plan :: string
  activated_at :: "datetime option"
  expires_at :: datetime
  is_active :: bool
  is_used :: bool
  license_notes :: "string option"

record activation_log =
  log_license_key :: string
  log_device_id :: "string option"
  log_action :: string
  log_ip_address :: string

record database =
  licenses :: "license list"
  activation_logs :: "activation_log list"

text \<open>A fresh database file after \<open>init_database\<close>: both tables exist and are empty.\<close>

definition init_database :: database where
  "init_database = \<lparr>licenses = [], activation_logs = []\<rparr>"

text \<open>\<open>SELECT * FROM licenses WHERE license_key = ?\<close> followed by \<open>fetchone()\<close>.\<close>

definition select_license :: "license list \<Rightarrow> string \<Rightarrow> license option" where
  "select_license ls k = find (\<lambda>r. license_key r = k) ls"

text \<open>\<open>UPDATE licenses SET ... WHERE ...\<close>: every row that satisfies the condition is
  rewritten, the others stay.\<close>

definition update_where :: "(license \<Rightarrow> bool) \<Rightarrow> (license \<Rightarrow> license) \<Rightarrow> license list \<Rightarrow> license list" where
  "update_where cond f ls = map (\<lambda>r. if cond r then f r else r) ls"

text \<open>\<open>cursor.rowcount\<close> after such an UPDATE.\<close>

definition rowcount :: "(license \<Rightarrow> bool) \<Rightarrow> license list \<Rightarrow> nat" where
  "rowcount cond ls = length (filter cond ls)"

text \<open>\<open>INSERT INTO licenses\<close>: the column \<open>license_key\<close> is \<open>UNIQUE\<close>, so inserting a key
  that is already there raises \<open>sqlite3.IntegrityError\<close>.\<close>

definition insert_license :: "license list \<Rightarrow> license \<Rightarrow> py_error + license list" where
  "insert_license ls r =
     (if license_key r \<in> set (map license_key ls) then Inl IntegrityError
      else Inr (ls @ [r]))"

text \<open>SQL equality \<open>column = ?\<close>: a comparison with NULL on either side is never true.\<close>

fun sql_eq :: "'a option \<Rightarrow> 'a option \<Rightarrow> bool" where
  "sql_eq (Some x) (Some y) = (x = y)"
| "sql_eq _ _ = False"

definition insert_log :: "database \<Rightarrow> string \<Rightarrow> string option \<Rightarrow> string \<Rightarrow> string \<Rightarrow> database" where
  "insert_log db k d action ip =
     db\<lparr>activation_logs := activation_logs db @
        [\<lparr>log_license_key = k, log_device_id = d, log_action = action, log_ip_address = ip\<rparr>]\<rparr>"

section \<open>License code generators\<close>

text \<open>
  The random source is the sequence of draws \<open>rnd 0, rnd 1, ...\<close>;
  \<open>random.choices(chars, k=n)\<close> takes \<open>n\<close> draws from position \<open>off\<close> and picks
  \<open>chars[i]\<close> with \<open>i < len(chars)\<close> for each.
\<close>

definition choices :: "string \<Rightarrow> nat \<Rightarrow> (nat \<Rightarrow> nat) \<Rightarrow> nat \<Rightarrow> string" where
  "choices chars k rnd off = map (\<lambda>i. chars ! (rnd (off + i) mod length chars)) [0..<k]"

text \<open>\<open>license_server.py\<close>, \<open>generate_license_code\<close>.\<close>

definition chars :: string where
  "chars = ''ABCDEFGHJKLMNPQRSTUVWXYZ23456789''"

definition generate_license_code :: "(nat \<Rightarrow> nat) \<Rightarrow> string" where
  "generate_license_code rnd =
     ''GNP-'' @ join ''-'' (map (\<lambda>j. choices chars 4 rnd (4 * j)) [0..<3])"

text \<open>\<open>generate_codes.py\<close> and \<open>generate_3days_codes.py\<close>, \<open>generate_code\<close> (the two are the
  same function).\<close>

definition generate_code :: "(nat \<Rightarrow> nat) \<Rightarrow> string" where
  "generate_code rnd =
     ''GNP-'' @ join ''-'' (map (\<lambda>j. choices (ascii_uppercase @ digits) 4 rnd (4 * j)) [0..<3])"

text \<open>\<open>generate_all_codes_4parts.py\<close>, \<open>generate_code_4parts\<close>.\<close>

definition generate_code_4parts :: "(nat \<Rightarrow> nat) \<Rightarrow> string" where
  "generate_code_4parts rnd =
     ''GNP-'' @ join ''-'' (map (\<lambda>j. choices (ascii_uppercase @ digits) 4 rnd (4 * j)) [0..<3])"

text \<open>\<open>generate_lifetime_codes.py\<close> and \<open>generate_5days_codes.py\<close>, \<open>generate_code\<close>: the loop
  runs over \<open>range(4)\<close>.\<close>

definition generate_code_lifetime :: "(nat \<Rightarrow> nat) \<Rightarrow> string" where
  "generate_code_lifetime rnd =
     ''GNP-'' @ join ''-'' (map (\<lambda>j. choices (ascii_uppercase @ digits) 4 rnd (4 * j)) [0..<4])"

text \<open>
  The format of the specification, \<open>PREFIX-XXXX-XXXX-XXXX\<close> over a given alphabet: the
  prefix \<open>GNP\<close>, then three segments of four characters of the alphabet, separated by
  hyphens.
\<close>

definition segment_ok :: "string \<Rightarrow> string \<Rightarrow> bool" where
  "segment_ok alphabet seg = (length seg = 4 \<and> list_all (\<lambda>c. c \<in> set alphabet) seg)"

definition key_format :: "string \<Rightarrow> string \<Rightarrow> bool" where
  "key_format alphabet s =
     (length s = 18 \<and> take 4 s = ''GNP-''
      \<and> segment_ok alphabet (take 4 (drop 4 s)) \<and> s ! 8 = CHR ''-''
      \<and> segment_ok alphabet (take 4 (drop 9 s)) \<and> s ! 13 = CHR ''-''
      \<and> segment_ok alphabet (take 4 (drop 14 s)))"

text \<open>The characters the specification calls visually confusable.\<close>

definition confusable :: "char set" where
  "confusable = {CHR ''0'', CHR ''O'', CHR ''1'', CHR ''I''}"

section \<open>Creating a license\<close>

text \<open>The dictionary returned by \<open>create_license\<close>.\<close>

record create_result =
  result_license_key :: string
  result_plan :: string
  result_expires_at :: datetime
  result_days :: int

text \<open>
  \<open>create_license\<close>: one code is generated, the expiry is computed, and the row is
  inserted with the column defaults of the table (\<open>device_id\<close> NULL, \<open>activated_at\<close> NULL,
  \<open>is_active\<close> 1, \<open>is_used\<close> 0). An exception leaves the function before \<open>commit\<close>, so an
  error result carries no database: the stored one is unchanged.
\<close>

definition create_license ::
  "database \<Rightarrow> datetime \<Rightarrow> (nat \<Rightarrow> nat) \<Rightarrow> string \<Rightarrow> int \<Rightarrow> string option \<Rightarrow> int option
     \<Rightarrow> string option \<Rightarrow> py_error + (create_result \<times> database)" where
  "create_license db now rnd pl days uname tg_id nts =
     (let k = generate_license_code rnd in
      case datetime_plus_days now days of
        Inl e \<Rightarrow> Inl e
      | Inr expires \<Rightarrow>
          (case insert_license (licenses db)
                  \<lparr>license_key = k, device_id = None, user_name = uname,
                   telegram_user_id = tg_id, plan = pl, activated_at = None,
                   expires_at = expires, is_active = True, is_used = False,
                   license_notes = nts\<rparr> of
             Inl e \<Rightarrow> Inl e
           | Inr ls \<Rightarrow>
               Inr (\<lparr>result_license_key = k, result_plan = pl,
                     result_expires_at = expires, result_days = days\<rparr>,
                    db\<lparr>licenses := ls\<rparr>)))"

section \<open>The client API\<close>

text \<open>
  The JSON body of a request and the caller's address. \<open>data.get('license_key', '')\<close>
  gives the empty string for a missing key; \<open>data.get('device_id')\<close> gives \<open>None\<close> for a
  missing device.
\<close>

record request =
  json_license_key :: string
  json_device_id :: "string option"
  remote_addr :: string

text \<open>A Flask response: the JSON body and the HTTP status. \<open>jsonify(...)\<close> returned
  alone is sent with status 200.\<close>

type_synonym 'b response = "'b \<times> nat"

definition jsonify :: "'b \<Rightarrow> 'b response" where
  "jsonify b = (b, 200)"

text \<open>Python's \<open>not device_id\<close>: true for \<open>None\<close> and for the empty string.\<close>

fun falsy :: "string option \<Rightarrow> bool" where
  "falsy None = True"
| "falsy (Some d) = (d = [])"

text \<open>The messages of the handlers, named by their meaning.\<close>

datatype message =
    Missing_data
  | Invalid_code
  | Stopped_by_admin
  | Code_expired
  | Used_on_other_device
  | Code_not_found
  | Unauthorized_device

datatype activate_body =
    Activate_failure message
  | Activate_success datetime string "string option"

datatype verify_body =
    Verify_inactive message
  | Verify_active datetime string

datatype deactivate_body = Deactivate_success

text \<open>
  \<open>activate_license\<close>. The handler reads the clock twice: \<open>now1\<close> for the expiry check
  and \<open>now2\<close> for \<open>activated_at\<close>.
\<close>

definition activate_license ::
  "database \<Rightarrow> datetime \<Rightarrow> datetime \<Rightarrow> request \<Rightarrow> activate_body response \<times> database" where
  "activate_license db now1 now2 req =
     (let k = upper (json_license_key req); d = json_device_id req in
      if k = [] \<or> falsy d then ((Activate_failure Missing_data, 400), db)
      else
        case select_license (licenses db) k of
          None \<Rightarrow> ((Activate_failure Invalid_code, 400), db)
        | Some license_row \<Rightarrow>
            if \<not> is_active license_row then ((Activate_failure Stopped_by_admin, 423), db)
            else if now1 > expires_at license_row then ((Activate_failure Code_expired, 410), db)
            else if is_used license_row \<and> device_id license_row \<noteq> d
              then ((Activate_failure Used_on_other_device, 403), db)
            else
              (jsonify (Activate_success (expires_at license_row) (plan license_row)
                          (user_name license_row)),
               insert_log
                 (db\<lparr>licenses :=
                       update_where (\<lambda>r. license_key r = k)
                         (\<lambda>r. r\<lparr>device_id := d, is_used := True, activated_at := Some now2\<rparr>)
                         (licenses db)\<rparr>)
                 k d ''activate'' (remote_addr req)))"

text \<open>\<open>verify_license\<close>.\<close>

definition verify_license ::
  "database \<Rightarrow> datetime \<Rightarrow> request \<Rightarrow> verify_body response \<times> database" where
  "verify_license db now req =
     (let k = upper (json_license_key req); d = json_device_id req in
      case select_license (licenses db) k of
        None \<Rightarrow> (jsonify (Verify_inactive Code_not_found), db)
      | Some license_row \<Rightarrow>
          if device_id license_row \<noteq> d then (jsonify (Verify_inactive Unauthorized_device), db)
          else if \<not> is_active license_row then (jsonify (Verify_inactive Stopped_by_admin), db)
          else if now > expires_at license_row then (jsonify (Verify_inactive Code_expired), db)
          else
            (jsonify (Verify_active (expires_at license_row) (plan license_row)),
             insert_log db k d ''verify'' (remote_addr req)))"

text \<open>\<open>deactivate_license\<close>.\<close>

definition deactivate_license ::
  "database \<Rightarrow> request \<Rightarrow> deactivate_body response \<times> database" where
  "deactivate_license db req =
     (let k = upper (json_license_key req); d = json_device_id req in
      (jsonify Deactivate_success,
       insert_log
         (db\<lparr>licenses :=
               update_where (\<lambda>r. license_key r = k \<and> sql_eq (device_id r) d)
                 (\<lambda>r. r\<lparr>device_id := None, is_used := False\<rparr>)
                 (licenses db)\<rparr>)
         k d ''deactivate'' (remote_addr req)))"

section \<open>The admin bot\<close>

definition ADMIN_IDS :: "int list" where
  "ADMIN_IDS = [590918137]"

text \<open>What a bot handler sends back, named by meaning; \<open>No_reply\<close> when it sends nothing.\<close>

datatype reply =
    Not_authorized
  | Usage
  | Not_found
  | Created create_result
  | Code_stopped string
  | Code_activated string
  | Code_extended string datetime
  | Status_changed bool
  | Extended_by int datetime
  | Hint
  | No_reply

text \<open>A handler's outcome: the exception it raised, or its reply and the database
  after it.\<close>

type_synonym outcome = "py_error + (reply \<times> database)"

text \<open>The decorator \<open>admin_only\<close>: a caller outside \<open>ADMIN_IDS\<close> is answered at once and
  the handler does not run.\<close>

definition admin_only :: "int \<Rightarrow> database \<Rightarrow> outcome \<Rightarrow> outcome" where
  "admin_only user_id db handler =
     (if user_id \<notin> set ADMIN_IDS then Inr (Not_authorized, db) else handler)"

text \<open>The plan chosen by \<open>generate_command\<close> from the number of days.\<close>

definition plan_of_days :: "int \<Rightarrow> string" where
  "plan_of_days days =
     (if days \<le> 7 then ''trial''
      else if days \<le> 30 then ''monthly''
      else if days \<le> 90 then ''quarterly''
      else if days \<le> 365 then ''yearly''
      else ''lifetime'')"

text \<open>
  \<open>generate_command\<close>. The arguments arrive parsed: \<open>days_arg\<close> is the number when the
  first argument is all digits (\<open>isdigit\<close>), \<open>name_arg\<close> the joined rest when there is one.
\<close>

definition generate_command ::
  "database \<Rightarrow> datetime \<Rightarrow> (nat \<Rightarrow> nat) \<Rightarrow> int \<Rightarrow> nat option \<Rightarrow> string option \<Rightarrow> outcome" where
  "generate_command db now rnd user_id days_arg name_arg =
     admin_only user_id db
       (let days = (case days_arg of Some n \<Rightarrow> int n | None \<Rightarrow> 30) in
        case create_license db now rnd (plan_of_days days) days name_arg (Some user_id) None of
          Inl e \<Rightarrow> Inl e
        | Inr (result, db') \<Rightarrow> Inr (Created result, db'))"

text \<open>\<open>stop_command\<close> and \<open>activate_command\<close>; \<open>key_arg\<close> is \<open>None\<close> when the command came
  without an argument.\<close>

definition stop_command :: "database \<Rightarrow> int \<Rightarrow> string option \<Rightarrow> outcome" where
  "stop_command db user_id key_arg =
     admin_only user_id db
       (case key_arg of
          None \<Rightarrow> Inr (Usage, db)
        | Some a \<Rightarrow>
            (let k = upper a in
             if rowcount (\<lambda>r. license_key r = k) (licenses db) > 0
             then Inr (Code_stopped k,
                       db\<lparr>licenses := update_where (\<lambda>r. license_key r = k)
                                         (\<lambda>r. r\<lparr>is_active := False\<rparr>) (licenses db)\<rparr>)
             else Inr (Not_found, db)))"

definition activate_command :: "database \<Rightarrow> int \<Rightarrow> string option \<Rightarrow> outcome" where
  "activate_command db user_id key_arg =
     admin_only user_id db
       (case key_arg of
          None \<Rightarrow> Inr (Usage, db)
        | Some a \<Rightarrow>
            (let k = upper a in
             if rowcount (\<lambda>r. license_key r = k) (licenses db) > 0
             then Inr (Code_activated k,
                       db\<lparr>licenses := update_where (\<lambda>r. license_key r = k)
                                         (\<lambda>r. r\<lparr>is_active := True\<rparr>) (licenses db)\<rparr>)
             else Inr (Not_found, db)))"

text \<open>
  \<open>extend_command\<close>; \<open>args\<close> is \<open>None\<close> when fewer than two arguments came, else the key
  and \<open>int(context.args[1])\<close>, any integer (a second argument that is no integer raises
  before the database is opened). The clock is read twice: \<open>now1\<close> in the comparison,
  \<open>now2\<close> in the assignment.
\<close>

definition extend_command ::
  "database \<Rightarrow> datetime \<Rightarrow> datetime \<Rightarrow> int \<Rightarrow> (string \<times> int) option \<Rightarrow> outcome" where
  "extend_command db now1 now2 user_id args =
     admin_only user_id db
       (case args of
          None \<Rightarrow> Inr (Usage, db)
        | Some (a, days) \<Rightarrow>
            (let k = upper a in
             case select_license (licenses db) k of
               None \<Rightarrow> Inr (Not_found, db)
             | Some row \<Rightarrow>
                 (let current_expiry =
                        (if expires_at row < now1 then now2 else expires_at row) in
                  case datetime_plus_days current_expiry days of
                    Inl e \<Rightarrow> Inl e
                  | Inr new_expiry \<Rightarrow>
                      Inr (Code_extended k new_expiry,
                           db\<lparr>licenses := update_where (\<lambda>r. license_key r = k)
                                 (\<lambda>r. r\<lparr>expires_at := new_expiry\<rparr>) (licenses db)\<rparr>))))"

text \<open>
  The callback data of a button, parsed: \<open>'gen_monthly'\<close>, \<open>'list_codes'\<close>, \<open>'stats'\<close>,
  \<open>'toggle_KEY'\<close>, \<open>'extend_KEY'\<close>, \<open>'extN_KEY'\<close> (\<open>Ext N KEY\<close>), and any other data, which
  no branch of \<open>button_callback\<close> handles (the \<open>'delete_KEY'\<close> of the delete button is
  such data).
\<close>

datatype callback_data =
    Gen_monthly
  | List_codes
  | Stats
  | Toggle string
  | Extend_menu string
  | Ext int string
  | Other_data

text \<open>\<open>button_callback\<close>. The key of a button is used as it comes, without \<open>upper\<close>.\<close>

definition button_callback ::
  "database \<Rightarrow> datetime \<Rightarrow> datetime \<Rightarrow> (nat \<Rightarrow> nat) \<Rightarrow> int \<Rightarrow> callback_data \<Rightarrow> outcome" where
  "button_callback db now1 now2 rnd user_id data =
     (if user_id \<notin> set ADMIN_IDS then Inr (Not_authorized, db)
      else
        case data of
          Gen_monthly \<Rightarrow>
            (case create_license db now1 rnd ''monthly'' 30 None None None of
               Inl e \<Rightarrow> Inl e
             | Inr (result, db') \<Rightarrow> Inr (Created result, db'))
        | List_codes \<Rightarrow> Inr (Hint, db)
        | Stats \<Rightarrow> Inr (Hint, db)
        | Toggle k \<Rightarrow>
            (case select_license (licenses db) k of
               None \<Rightarrow> Inr (No_reply, db)
             | Some row \<Rightarrow>
                 (let new_status = (if is_active row then False else True) in
                  Inr (Status_changed new_status,
                       db\<lparr>licenses := update_where (\<lambda>r. license_key r = k)
                             (\<lambda>r. r\<lparr>is_active := new_status\<rparr>) (licenses db)\<rparr>)))
        | Extend_menu k \<Rightarrow> Inr (Hint, db)
        | Ext days k \<Rightarrow>
            (case select_license (licenses db) k of
               None \<Rightarrow> Inr (No_reply, db)
             | Some row \<Rightarrow>
                 (let current = (if expires_at row < now1 then now2 else expires_at row) in
                  case datetime_plus_days current days of
                    Inl e \<Rightarrow> Inl e
                  | Inr new_expiry \<Rightarrow>
                      Inr (Extended_by days new_expiry,
                           db\<lparr>licenses := update_where (\<lambda>r. license_key r = k)
                                 (\<lambda>r. r\<lparr>expires_at := new_expiry\<rparr>) (licenses db)\<rparr>)))
        | Other_data \<Rightarrow> Inr (No_reply, db))"

section \<open>The service as a state machine\<close>

text \<open>Every request that can reach the database: the three API routes and the bot's
  writing handlers, each with the clock readings and random draws it consumes.\<close>

datatype event =
    Api_activate datetime datetime request
  | Api_verify datetime request
  | Api_deactivate request
  | Bot_generate datetime "nat \<Rightarrow> nat" int "nat option" "string option"
  | Bot_stop int "string option"
  | Bot_activate int "string option"
  | Bot_extend datetime datetime int "(string \<times> int) option"
  | Bot_button datetime datetime "nat \<Rightarrow> nat" int callback_data

text \<open>The database after a bot handler: unchanged when it raised.\<close>

definition after :: "database \<Rightarrow> outcome \<Rightarrow> database" where
  "after db out = (case out of Inl e \<Rightarrow> db | Inr (rep, db') \<Rightarrow> db')"

fun step :: "database \<Rightarrow> event \<Rightarrow> database" where
  "step db (Api_activate now1 now2 req) = snd (activate_license db now1 now2 req)"
| "step db (Api_verify now req) = snd (verify_license db now req)"
| "step db (Api_deactivate req) = snd (deactivate_license db req)"
| "step db (Bot_generate now rnd uid days_arg name_arg) =
     after db (generate_command db now rnd uid days_arg name_arg)"
| "step db (Bot_stop uid key_arg) = after db (stop_command db uid key_arg)"
| "step db (Bot_activate uid key_arg) = after db (activate_command db uid key_arg)"
| "step db (Bot_extend now1 now2 uid args) = after db (extend_command db now1 now2 uid args)"
| "step db (Bot_button now1 now2 rnd uid data) =
     after db (button_callback db now1 now2 rnd uid data)"


text \<open>The record invariant: \<open>is_used\<close> holds exactly when \<open>device_id\<close> is not NULL.\<close>

definition bound_iff_used :: "license \<Rightarrow> bool" where
  "bound_iff_used r = (is_used r = (device_id r \<noteq> None))"

definition record_invariant :: "database \<Rightarrow> bool" where
  "record_invariant db = list_all bound_iff_used (licenses db)"

text \<open>A sequence of \<open>verify\<close> calls, each with its own clock reading.\<close>

definition verify_all :: "database \<Rightarrow> (datetime \<times> request) list \<Rightarrow> database" where
  "verify_all db calls = foldl (\<lambda>s (now, req). snd (verify_license s now req)) db calls"

text \<open>The requests that are verify calls.\<close>

fun is_verify :: "event \<Rightarrow> bool" where
  "is_verify (Api_verify now req) = True"
| "is_verify _ = False"

text \<open>The validity predicate of the specification: a record is valid for use by a device
  at a time when it is active, the time is before its expiry, and it is unused or bound
  to that device.\<close>

definition valid_for_use :: "license \<Rightarrow> datetime \<Rightarrow> string option \<Rightarrow> bool" where
  "valid_for_use r now dev =
     (is_active r \<and> now < expires_at r \<and> (\<not> is_used r \<or> device_id r = dev))"

text \<open>The alphabet of the specification's key format: the uppercase letters and digits
  without the confusable characters.\<close>

definition unambiguous_alphabet :: string where
  "unambiguous_alphabet = filter (\<lambda>c. c \<notin> confusable) (ascii_uppercase @ digits)"

section \<open>Example data\<close>

text \<open>Midnight of 2025-01-01, and a database with one license that was created for the
  key \<open>GNP-AAAA-AAAA-AAAA\<close>, expires at that instant and was never activated.\<close>

definition t_2025 :: datetime where
  "t_2025 = 739251 * 86400 * 1000000"

definition sample_license :: license where
  "sample_license =
     \<lparr>license_key = ''GNP-AAAA-AAAA-AAAA'', device_id = None, user_name = None,
      telegram_user_id = None, plan = ''monthly'', activated_at = None,
      expires_at = t_2025, is_active = True, is_used = False, license_notes = None\<rparr>"

definition sample_db :: database where
  "sample_db = \<lparr>licenses = [sample_license], activation_logs = []\<rparr>"

text \<open>The same license after \<open>device-A\<close> activated it ten microseconds before expiry.\<close>

definition bound_license :: license where
  "bound_license =
     sample_license\<lparr>device_id := Some ''device-A'', is_used := True,
                    activated_at := Some (t_2025 - 10)\<rparr>"

definition bound_db :: database where
  "bound_db = \<lparr>licenses = [bound_license], activation_logs = []\<rparr>"

text \<open>A request for that key, written in lower case, from a given device.\<close>

definition sample_request :: "string option \<Rightarrow> request" where
  "sample_request d =
     \<lparr>json_license_key = ''gnp-aaaa-aaaa-aaaa'', json_device_id = d,
      remote_addr = ''10.0.0.7''\<rparr>"


section \<open>Basic facts about the tables\<close>

lemmas sample_defs = t_2025_def sample_license_def sample_db_def bound_license_def
  bound_db_def sample_request_def upper_def upper_char_def ascii_lowercase_def
  ascii_uppercase_def select_license_def update_where_def insert_log_def jsonify_def


lemma select_license_key: "select_license ls k = Some r \<Longrightarrow> license_key r = k"
  by (induction ls) (auto simp: select_license_def split: if_splits)


lemma select_update_where:
  assumes "\<And>r. license_key (f r) = license_key r"
  shows "select_license (update_where cond f ls) k
         = map_option (\<lambda>r. if cond r then f r else r) (select_license ls k)"
  using assms by (induction ls) (auto simp: select_license_def update_where_def)

lemma select_None_update_where:
  "select_license ls k = None \<Longrightarrow> update_where (\<lambda>r. license_key r = k \<and> P r) f ls = ls"
  by (induction ls) (auto simp: select_license_def update_where_def split: if_splits)


lemma licenses_insert_log [simp]: "licenses (insert_log db k d a ip) = licenses db"
  by (simp add: insert_log_def)

lemma logs_insert_log [simp]:
  "activation_logs (insert_log db k d a ip)
   = activation_logs db @
       [\<lparr>log_license_key = k, log_device_id = d, log_action = a, log_ip_address = ip\<rparr>]"
  by (simp add: insert_log_def)

lemma sql_eq_imp_eq: "sql_eq a b \<Longrightarrow> a = b"
  by (cases a; cases b) simp_all



lemma map_upt_3: "map f [0..<3] = [f 0, f 1, f 2]"
proof -
  have "[0..<3] = [0, 1, 2::nat]" by (simp add: upt_rec)
  then show ?thesis by simp
qed

lemma map_upt_4: "map f [0..<4] = [f 0, f 1, f 2, f 3]"
proof -
  have "[0..<4] = [0, 1, 2, 3::nat]" by (simp add: upt_rec)
  then show ?thesis by simp
qed

section \<open>Verification never writes the license table\<close>

lemma verify_license_licenses: "licenses (snd (verify_license db now req)) = licenses db"
  by (simp add: verify_license_def Let_def split: option.splits)

lemma verify_all_licenses: "licenses (verify_all db calls) = licenses db"
  unfolding verify_all_def
  by (induction calls arbitrary: db) (auto simp: verify_license_licenses)

lemma verify_status: "snd (fst (verify_license db now req)) = 200"
  by (simp add: verify_license_def Let_def jsonify_def split: option.splits)

lemma verify_device_mismatch:
  assumes "select_license (licenses db) (upper (json_license_key req)) = Some r"
    and "device_id r \<noteq> json_device_id req"
  shows "verify_license db now req = ((Verify_inactive Unauthorized_device, 200), db)"
  using assms by (simp add: verify_license_def Let_def jsonify_def)

text \<open>What a request does to the license table depends on the license table alone, not
  on the log; so verify calls can be dropped from any sequence of requests without
  changing the license table it leads to.\<close>

lemma step_licenses_cong:
  assumes "licenses db = licenses db'"
  shows "licenses (step db ev) = licenses (step db' ev)"
proof (cases ev)
  case (Api_activate now1 now2 req)
  with assms show ?thesis
    by (simp add: activate_license_def Let_def split: option.splits)
next
  case (Api_verify now req)
  with assms show ?thesis
    by (simp add: verify_license_licenses)
next
  case (Api_deactivate req)
  with assms show ?thesis
    by (simp add: deactivate_license_def Let_def)
next
  case (Bot_generate now rnd uid days_arg name_arg)
  with assms show ?thesis
    by (simp add: generate_command_def admin_only_def create_license_def after_def Let_def
          split: sum.splits)
next
  case (Bot_stop uid key_arg)
  with assms show ?thesis
    by (simp add: stop_command_def admin_only_def after_def Let_def split: option.splits)
next
  case (Bot_activate uid key_arg)
  with assms show ?thesis
    by (simp add: activate_command_def admin_only_def after_def Let_def split: option.splits)
next
  case (Bot_extend now1 now2 uid args)
  with assms show ?thesis
    by (simp add: extend_command_def admin_only_def after_def Let_def
          split: option.splits sum.splits prod.splits)
next
  case (Bot_button now1 now2 rnd uid data)
  with assms show ?thesis
    by (cases data)
       (simp_all add: button_callback_def create_license_def after_def Let_def
          split: option.splits sum.splits)
qed

lemma foldl_step_skip_verify:
  "licenses db = licenses db' \<Longrightarrow>
   licenses (foldl step db evs) = licenses (foldl step db' (filter (\<lambda>ev. \<not> is_verify ev) evs))"
proof (induction evs arbitrary: db db')
  case Nil
  then show ?case by simp
next
  case (Cons ev evs)
  show ?case
  proof (cases "is_verify ev")
    case True
    then obtain now req where "ev = Api_verify now req"
      by (cases ev) simp_all
    then have "licenses (step db ev) = licenses db'"
      using Cons.prems by (simp add: verify_license_licenses)
    from Cons.IH [OF this] True show ?thesis by simp
  next
    case False
    have "licenses (step db ev) = licenses (step db' ev)"
      using Cons.prems by (rule step_licenses_cong)
    from Cons.IH [OF this] False show ?thesis by simp
  qed
qed

section \<open>Activation\<close>

text \<open>
  Claim C3, as the code has it. An activate request without a key or without a device
  fails with status 400 before anything is read. For a request that carries both, the
  checks come in this order: an absent key fails with status 400; a stopped license
  fails with 423 whatever its expiry and binding; an active license whose expiry is
  strictly before the clock reading fails with 410 whatever its binding; an active,
  unexpired license that is used by another device fails with 403; each failure leaves
  the database as it was. Only otherwise the request succeeds with status 200, the row
  gets the device, \<open>is_used\<close> and \<open>activated_at\<close>, and one \<open>activate\<close> entry is logged. A
  license is expired only when the clock is strictly past \<open>expires_at\<close>.
\<close>

theorem activate_precedence:
  "(upper (json_license_key req) = [] \<or> falsy (json_device_id req) \<longrightarrow>
      activate_license db now1 now2 req = ((Activate_failure Missing_data, 400), db))
   \<and> (upper (json_license_key req) \<noteq> [] \<and> \<not> falsy (json_device_id req) \<longrightarrow>
        (select_license (licenses db) (upper (json_license_key req)) = None \<longrightarrow>
            activate_license db now1 now2 req = ((Activate_failure Invalid_code, 400), db))
       \<and> (\<forall>r. select_license (licenses db) (upper (json_license_key req)) = Some r \<longrightarrow>
            (\<not> is_active r \<longrightarrow>
               activate_license db now1 now2 req
                 = ((Activate_failure Stopped_by_admin, 423), db))
          \<and> (is_active r \<and> expires_at r < now1 \<longrightarrow>
               activate_license db now1 now2 req = ((Activate_failure Code_expired, 410), db))
          \<and> (is_active r \<and> now1 \<le> expires_at r \<and> is_used r
                \<and> device_id r \<noteq> json_device_id req \<longrightarrow>
               activate_license db now1 now2 req
                 = ((Activate_failure Used_on_other_device, 403), db))
          \<and> (is_active r \<and> now1 \<le> expires_at r
                \<and> (\<not> is_used r \<or> device_id r = json_device_id req) \<longrightarrow>
               fst (activate_license db now1 now2 req)
                 = (Activate_success (expires_at r) (plan r) (user_name r), 200)
               \<and> select_license (licenses (snd (activate_license db now1 now2 req)))
                    (upper (json_license_key req))
                 = Some (r\<lparr>device_id := json_device_id req, is_used := True,
                           activated_at := Some now2\<rparr>)
               \<and> activation_logs (snd (activate_license db now1 now2 req))
                 = activation_logs db @
                     [\<lparr>log_license_key = upper (json_license_key req),
                       log_device_id = json_device_id req, log_action = ''activate'',
                       log_ip_address = remote_addr req\<rparr>])))"
proof -
  have missing: "activate_license db now1 now2 req = ((Activate_failure Missing_data, 400), db)"
    if "upper (json_license_key req) = [] \<or> falsy (json_device_id req)"
    using that by (auto simp: activate_license_def Let_def)
  have present: "(select_license (licenses db) (upper (json_license_key req)) = None \<longrightarrow>
            activate_license db now1 now2 req = ((Activate_failure Invalid_code, 400), db))
       \<and> (\<forall>r. select_license (licenses db) (upper (json_license_key req)) = Some r \<longrightarrow>
            (\<not> is_active r \<longrightarrow>
               activate_license db now1 now2 req
                 = ((Activate_failure Stopped_by_admin, 423), db))
          \<and> (is_active r \<and> expires_at r < now1 \<longrightarrow>
               activate_license db now1 now2 req = ((Activate_failure Code_expired, 410), db))
          \<and> (is_active r \<and> now1 \<le> expires_at r \<and> is_used r
                \<and> device_id r \<noteq> json_device_id req \<longrightarrow>
               activate_license db now1 now2 req
                 = ((Activate_failure Used_on_other_device, 403), db))
          \<and> (is_active r \<and> now1 \<le> expires_at r
                \<and> (\<not> is_used r \<or> device_id r = json_device_id req) \<longrightarrow>
               fst (activate_license db now1 now2 req)
                 = (Activate_success (expires_at r) (plan r) (user_name r), 200)
               \<and> select_license (licenses (snd (activate_license db now1 now2 req)))
                    (upper (json_license_key req))
                 = Some (r\<lparr>device_id := json_device_id req, is_used := True,
                           activated_at := Some now2\<rparr>)
               \<and> activation_logs (snd (activate_license db now1 now2 req))
                 = activation_logs db @
                     [\<lparr>log_license_key = upper (json_license_key req),
                       log_device_id = json_device_id req, log_action = ''activate'',
                       log_ip_address = remote_addr req\<rparr>]))"
    if "upper (json_license_key req) \<noteq> []" and "\<not> falsy (json_device_id req)"
    using that
    by (auto simp: activate_license_def Let_def jsonify_def select_update_where
          dest: select_license_key)
  from missing present show ?thesis by blast
qed

text \<open>
  Claim C3, witness: \<open>device-B\<close> asks for the license bound to \<open>device-A\<close> five
  microseconds before it expires and is refused with 403; \<open>device-A\<close> asks for the
  unused license at the same time and succeeds; a request without a device is refused
  with 400.
\<close>

theorem activate_precedence_witness:
  "upper (json_license_key (sample_request (Some ''device-B''))) \<noteq> []
   \<and> \<not> falsy (json_device_id (sample_request (Some ''device-B'')))
   \<and> select_license (licenses bound_db)
        (upper (json_license_key (sample_request (Some ''device-B'')))) = Some bound_license
   \<and> activate_license bound_db (t_2025 - 5) (t_2025 - 4) (sample_request (Some ''device-B''))
       = ((Activate_failure Used_on_other_device, 403), bound_db)
   \<and> fst (activate_license sample_db (t_2025 - 5) (t_2025 - 4)
             (sample_request (Some ''device-A'')))
       = (Activate_success t_2025 ''monthly'' None, 200)
   \<and> falsy (json_device_id (sample_request None))
   \<and> activate_license sample_db (t_2025 - 5) (t_2025 - 4) (sample_request None)
       = ((Activate_failure Missing_data, 400), sample_db)"
proof -
  have k: "upper (json_license_key (sample_request d)) \<noteq> []" for d
    by (simp add: sample_defs)
  have b: "\<not> falsy (json_device_id (sample_request (Some ''device-B'')))"
    and a: "\<not> falsy (json_device_id (sample_request (Some ''device-A'')))"
    and n: "falsy (json_device_id (sample_request None))"
    by (simp_all add: sample_defs)
  have sb: "select_license (licenses bound_db)
        (upper (json_license_key (sample_request (Some ''device-B'')))) = Some bound_license"
    and sa: "select_license (licenses sample_db)
        (upper (json_license_key (sample_request (Some ''device-A'')))) = Some sample_license"
    by (simp_all add: sample_defs)
  have fb: "is_active bound_license \<and> t_2025 - 5 \<le> expires_at bound_license
      \<and> is_used bound_license
      \<and> device_id bound_license \<noteq> json_device_id (sample_request (Some ''device-B''))"
    and fa: "is_active sample_license \<and> t_2025 - 5 \<le> expires_at sample_license
      \<and> \<not> is_used sample_license"
    and va: "expires_at sample_license = t_2025" "plan sample_license = ''monthly''"
      "user_name sample_license = None"
    by (simp_all add: sample_defs)
  from activate_precedence [of "sample_request (Some ''device-B'')" bound_db
      "t_2025 - 5" "t_2025 - 4"] k b sb fb
  have 1: "activate_license bound_db (t_2025 - 5) (t_2025 - 4)
             (sample_request (Some ''device-B''))
           = ((Activate_failure Used_on_other_device, 403), bound_db)"
    by blast
  from activate_precedence [of "sample_request (Some ''device-A'')" sample_db
      "t_2025 - 5" "t_2025 - 4"] k a sa fa
  have "fst (activate_license sample_db (t_2025 - 5) (t_2025 - 4)
               (sample_request (Some ''device-A'')))
        = (Activate_success (expires_at sample_license) (plan sample_license)
             (user_name sample_license), 200)"
    by blast
  with va have 2: "fst (activate_license sample_db (t_2025 - 5) (t_2025 - 4)
               (sample_request (Some ''device-A'')))
        = (Activate_success t_2025 ''monthly'' None, 200)"
    by simp
  from activate_precedence [of "sample_request None" sample_db "t_2025 - 5" "t_2025 - 4"] n
  have 3: "activate_license sample_db (t_2025 - 5) (t_2025 - 4) (sample_request None)
           = ((Activate_failure Missing_data, 400), sample_db)"
    by blast
  from k b sb 1 2 n 3 show ?thesis by simp
qed

text \<open>
  Claim C3, where it fails as stated: at the instant \<open>now = expires_at\<close> the claim asks for
  the failure Expired (410), and the handler, which compares with \<open>>\<close>, activates the
  license.
\<close>

theorem activate_at_expiry_instant:
  "expires_at sample_license \<le> t_2025
   \<and> fst (activate_license sample_db t_2025 t_2025 (sample_request (Some ''device-A'')))
       = (Activate_success t_2025 ''monthly'' None, 200)"
  by (simp add: activate_license_def Let_def sample_defs)

section \<open>Verification\<close>

text \<open>
  Claim C4 at a request the handler mishandles. The license was never activated, so
  its \<open>device_id\<close> is NULL; a verify request that carries no \<open>device_id\<close> reads \<open>None\<close>,
  the comparison \<open>None != None\<close> is false, and the handler answers \<open>is_active: true\<close>
  where the claim asks for a device mismatch.
\<close>

theorem verify_unbound_without_device:
  "select_license (licenses sample_db) ''GNP-AAAA-AAAA-AAAA'' = Some sample_license
   \<and> device_id sample_license = None \<and> is_used sample_license = False
   \<and> fst (verify_license sample_db (t_2025 - 1) (sample_request None))
       = (Verify_active t_2025 ''monthly'', 200)"
  by (simp add: verify_license_def Let_def sample_defs)

text \<open>
  Claim C6. A verify call leaves the license table as it was, and so does every
  sequence of verify calls; two sequences of verify calls, in whatever order, leave the
  same table, and the validity predicate of every key, at every time and for every
  device, has the value it had before. Verify calls interleaved with other requests
  can be taken out, and so moved, without changing the license table reached.
\<close>

theorem verify_is_pure:
  "licenses (snd (verify_license db now req)) = licenses db
   \<and> licenses (verify_all db calls) = licenses db
   \<and> licenses (verify_all db calls) = licenses (verify_all db calls')
   \<and> map_option (\<lambda>r. valid_for_use r t dev)
        (select_license (licenses (verify_all db calls)) k)
       = map_option (\<lambda>r. valid_for_use r t dev) (select_license (licenses db) k)
   \<and> licenses (foldl step db evs)
       = licenses (foldl step db (filter (\<lambda>ev. \<not> is_verify ev) evs))"
  using foldl_step_skip_verify [of db db evs]
  by (simp add: verify_license_licenses verify_all_licenses)

text \<open>
  Claim C6, witness: two verify calls on the bound license, one from its device and one
  from another, in both orders.
\<close>

theorem verify_is_pure_witness:
  "licenses (verify_all bound_db
      [(t_2025 - 3, sample_request (Some ''device-A'')),
       (t_2025 - 2, sample_request (Some ''device-B''))]) = [bound_license]
   \<and> licenses (verify_all bound_db
      [(t_2025 - 2, sample_request (Some ''device-B'')),
       (t_2025 - 3, sample_request (Some ''device-A''))]) = [bound_license]
   \<and> map_option (\<lambda>r. valid_for_use r (t_2025 - 1) (Some ''device-A''))
        (select_license (licenses (verify_all bound_db
            [(t_2025 - 3, sample_request (Some ''device-A'')),
             (t_2025 - 2, sample_request (Some ''device-B''))])) ''GNP-AAAA-AAAA-AAAA'')
       = Some True"
proof -
  let ?ab = "[(t_2025 - 3, sample_request (Some ''device-A'')),
              (t_2025 - 2, sample_request (Some ''device-B''))]"
  let ?ba = "[(t_2025 - 2, sample_request (Some ''device-B'')),
              (t_2025 - 3, sample_request (Some ''device-A''))]"
  note pure = verify_is_pure [of bound_db "t_2025 - 3" "sample_request (Some ''device-A'')"
      ?ab ?ba "t_2025 - 1" "Some ''device-A''" "''GNP-AAAA-AAAA-AAAA''"]
  have table: "licenses bound_db = [bound_license]"
    by (simp add: bound_db_def)
  have valid: "map_option (\<lambda>r. valid_for_use r (t_2025 - 1) (Some ''device-A''))
        (select_license (licenses bound_db) ''GNP-AAAA-AAAA-AAAA'') = Some True"
    by (simp add: valid_for_use_def sample_defs)
  from pure have "licenses (verify_all bound_db ?ab) = licenses bound_db"
    and "licenses (verify_all bound_db ?ab) = licenses (verify_all bound_db ?ba)"
    and "map_option (\<lambda>r. valid_for_use r (t_2025 - 1) (Some ''device-A''))
           (select_license (licenses (verify_all bound_db ?ab)) ''GNP-AAAA-AAAA-AAAA'')
         = map_option (\<lambda>r. valid_for_use r (t_2025 - 1) (Some ''device-A''))
             (select_license (licenses bound_db) ''GNP-AAAA-AAAA-AAAA'')"
    by blast+
  with table valid show ?thesis by simp
qed

section \<open>Extension\<close>




section \<open>Creation and key generation\<close>




lemma choices_length: "length (choices al k rnd off) = k"
  by (simp add: choices_def)

lemma choices_in_alphabet:
  "al \<noteq> [] \<Longrightarrow> list_all (\<lambda>c. c \<in> set al) (choices al k rnd off)"
  by (simp add: choices_def list_all_iff)

lemma segment_ok_choices:
  "al \<noteq> [] \<Longrightarrow> set al \<subseteq> set al' \<Longrightarrow> segment_ok al' (choices al 4 rnd off)"
  using choices_in_alphabet [of al 4 rnd off]
  by (auto simp: segment_ok_def choices_length list_all_iff)

lemma key_format_three_segments:
  assumes "segment_ok al a" and "segment_ok al b" and "segment_ok al c"
  shows "key_format al (''GNP-'' @ join ''-'' [a, b, c])"
proof -
  from assms have "length a = 4" "length b = 4" "length c = 4"
    by (simp_all add: segment_ok_def)
  then show ?thesis
    using assms by (simp add: key_format_def nth_append)
qed

lemma chars_unambiguous: "set chars \<subseteq> set unambiguous_alphabet"
  by (simp add: chars_def unambiguous_alphabet_def confusable_def ascii_uppercase_def
        digits_def)

lemma lifetime_code_length: "length (generate_code_lifetime rnd) = 23"
  by (simp add: generate_code_lifetime_def map_upt_4 choices_length)

text \<open>The generator of \<open>generate_lifetime_codes.py\<close> and \<open>generate_5days_codes.py\<close> draws
  four segments, so none of its keys has the format, over any alphabet.\<close>

lemma lifetime_code_not_in_format: "\<not> key_format al (generate_code_lifetime rnd)"
  by (simp add: key_format_def lifetime_code_length)

text \<open>
  Claim C8, as the code has it. Every key of the server's generator has the format
  \<open>GNP-XXXX-XXXX-XXXX\<close> over the alphabet without \<open>0\<close>, \<open>O\<close>, \<open>1\<close> and \<open>I\<close>. Every key of
  the offline generators of \<open>generate_codes.py\<close>, \<open>generate_3days_codes.py\<close> and
  \<open>generate_all_codes_4parts.py\<close> has that format over the full alphabet of uppercase
  letters and digits, the confusable characters included.
\<close>

theorem generated_key_formats:
  "key_format unambiguous_alphabet (generate_license_code rnd)
   \<and> set unambiguous_alphabet \<inter> confusable = {}
   \<and> key_format (ascii_uppercase @ digits) (generate_code rnd)
   \<and> key_format (ascii_uppercase @ digits) (generate_code_4parts rnd)"
proof -
  have 1: "key_format unambiguous_alphabet (generate_license_code rnd)"
    unfolding generate_license_code_def map_upt_3
    by (intro key_format_three_segments segment_ok_choices chars_unambiguous)
       (simp_all add: chars_def)
  have 2: "key_format (ascii_uppercase @ digits) (generate_code rnd)"
    unfolding generate_code_def map_upt_3
    by (intro key_format_three_segments segment_ok_choices) (simp_all add: digits_def)
  have 3: "key_format (ascii_uppercase @ digits) (generate_code_4parts rnd)"
    unfolding generate_code_4parts_def map_upt_3
    by (intro key_format_three_segments segment_ok_choices) (simp_all add: digits_def)
  have 4: "set unambiguous_alphabet \<inter> confusable = {}"
    by (auto simp: unambiguous_alphabet_def)
  from 1 2 3 4 show ?thesis by simp
qed

text \<open>
  Claim C8, witness: the keys the three generators make from the draws
  \<open>0, 1, 2, ...\<close>.
\<close>

theorem generated_key_formats_witness:
  "generate_license_code (\<lambda>i. i) = ''GNP-ABCD-EFGH-JKLM''
   \<and> key_format unambiguous_alphabet ''GNP-ABCD-EFGH-JKLM''
   \<and> generate_code (\<lambda>i. i) = ''GNP-ABCD-EFGH-IJKL''
   \<and> key_format (ascii_uppercase @ digits) ''GNP-ABCD-EFGH-IJKL''"
proof -
  have s: "generate_license_code (\<lambda>i. i) = ''GNP-ABCD-EFGH-JKLM''"
    by (simp add: generate_license_code_def choices_def chars_def map_upt_3 map_upt_4)
  have u: "generate_code (\<lambda>i. i) = ''GNP-ABCD-EFGH-IJKL''"
    by (simp add: generate_code_def choices_def ascii_uppercase_def digits_def
          map_upt_3 map_upt_4)
  from generated_key_formats [of "\<lambda>i. i"] s u show ?thesis by simp
qed

text \<open>
  Claim C8, where it fails as stated: when every draw is 26, \<open>generate_code\<close> of
  \<open>generate_codes.py\<close> makes a key of zeros, which is outside the alphabet without
  confusable characters.
\<close>

theorem offline_code_with_zero:
  "generate_code (\<lambda>i. 26) = ''GNP-0000-0000-0000''
   \<and> \<not> key_format unambiguous_alphabet (generate_code (\<lambda>i. 26))"
  by (simp add: generate_code_def choices_def map_upt_3 map_upt_4 ascii_uppercase_def
        digits_def key_format_def segment_ok_def unambiguous_alphabet_def confusable_def)

section \<open>Re-activation and deactivation\<close>

text \<open>
  Claim C7, as the code has it. When the device that a license is bound to activates it
  again, with key and device present and the license active and not expired, the call
  succeeds; the row keeps its device, \<open>is_used\<close>, expiry, plan and flag, and its
  \<open>activated_at\<close> becomes the time of this latest activation; the rows of all other keys
  stay as they were.
\<close>

theorem reactivate_same_device:
  assumes "select_license (licenses db) (upper (json_license_key req)) = Some r"
    and "upper (json_license_key req) \<noteq> []"
    and "\<not> falsy (json_device_id req)"
    and "is_used r" and "device_id r = json_device_id req"
    and "is_active r" and "now1 \<le> expires_at r"
  shows "fst (activate_license db now1 now2 req)
           = (Activate_success (expires_at r) (plan r) (user_name r), 200)
       \<and> select_license (licenses (snd (activate_license db now1 now2 req)))
            (upper (json_license_key req))
           = Some (r\<lparr>activated_at := Some now2\<rparr>)
       \<and> (\<forall>k'. k' \<noteq> upper (json_license_key req) \<longrightarrow>
             select_license (licenses (snd (activate_license db now1 now2 req))) k'
               = select_license (licenses db) k')"
proof -
  have key: "license_key r = upper (json_license_key req)"
    using assms(1) by (rule select_license_key)
  have same: "r\<lparr>device_id := json_device_id req, is_used := True, activated_at := Some now2\<rparr>
              = r\<lparr>activated_at := Some now2\<rparr>"
    using assms(4,5) by simp
  have other: "select_license (licenses (snd (activate_license db now1 now2 req))) k'
               = select_license (licenses db) k'"
    if "k' \<noteq> upper (json_license_key req)" for k'
  proof (cases "select_license (licenses db) k'")
    case None
    then show ?thesis
      using assms by (simp add: activate_license_def Let_def select_update_where)
  next
    case (Some r')
    then have "license_key r' = k'" by (rule select_license_key)
    with Some that show ?thesis
      using assms by (simp add: activate_license_def Let_def select_update_where)
  qed
  show ?thesis
    using assms key same other
    by (simp add: activate_license_def Let_def jsonify_def select_update_where)
qed

text \<open>
  Claim C7, witness: \<open>device-A\<close> activates its own license again, five microseconds
  before the expiry; \<open>activated_at\<close> moves from ten to four microseconds before it.
\<close>

theorem reactivate_same_device_witness:
  "select_license (licenses bound_db)
     (upper (json_license_key (sample_request (Some ''device-A'')))) = Some bound_license
   \<and> upper (json_license_key (sample_request (Some ''device-A''))) \<noteq> []
   \<and> \<not> falsy (json_device_id (sample_request (Some ''device-A'')))
   \<and> is_used bound_license
   \<and> device_id bound_license = json_device_id (sample_request (Some ''device-A''))
   \<and> is_active bound_license \<and> t_2025 - 5 \<le> expires_at bound_license
   \<and> fst (activate_license bound_db (t_2025 - 5) (t_2025 - 4)
            (sample_request (Some ''device-A'')))
       = (Activate_success t_2025 ''monthly'' None, 200)
   \<and> select_license
        (licenses (snd (activate_license bound_db (t_2025 - 5) (t_2025 - 4)
                          (sample_request (Some ''device-A'')))))
        ''GNP-AAAA-AAAA-AAAA''
       = Some (bound_license\<lparr>activated_at := Some (t_2025 - 4)\<rparr>)"
proof -
  let ?req = "sample_request (Some ''device-A'')"
  have up: "upper (json_license_key ?req) = ''GNP-AAAA-AAAA-AAAA''"
    by (simp add: sample_defs)
  have h1: "select_license (licenses bound_db) (upper (json_license_key ?req))
            = Some bound_license"
    by (simp add: sample_defs)
  have h2: "upper (json_license_key ?req) \<noteq> []"
    by (simp add: sample_defs)
  have h3: "\<not> falsy (json_device_id ?req)"
    and h4: "is_used bound_license"
    and h5: "device_id bound_license = json_device_id ?req"
    and h6: "is_active bound_license"
    and h7: "t_2025 - 5 \<le> expires_at bound_license"
    by (simp_all add: sample_defs)
  have v: "expires_at bound_license = t_2025" "plan bound_license = ''monthly''"
    "user_name bound_license = None"
    by (simp_all add: sample_defs)
  from reactivate_same_device [OF h1 h2 h3 h4 h5 h6 h7, of "t_2025 - 4"]
  have "fst (activate_license bound_db (t_2025 - 5) (t_2025 - 4) ?req)
          = (Activate_success (expires_at bound_license) (plan bound_license)
               (user_name bound_license), 200)"
    and "select_license
           (licenses (snd (activate_license bound_db (t_2025 - 5) (t_2025 - 4) ?req)))
           (upper (json_license_key ?req))
         = Some (bound_license\<lparr>activated_at := Some (t_2025 - 4)\<rparr>)"
    by blast+
  with h1 h2 h3 h4 h5 h6 h7 show ?thesis
    by (simp only: up v) simp
qed

text \<open>
  Claim C7, where it fails as stated: \<open>device-A\<close> activates the sample license ten
  microseconds before the expiry and again five microseconds before it; the second
  call succeeds and replaces the \<open>activated_at\<close> of the first.
\<close>

theorem second_activation_overwrites_activated_at:
  "map_option activated_at
     (select_license
        (licenses (snd (activate_license sample_db (t_2025 - 10) (t_2025 - 10)
                          (sample_request (Some ''device-A'')))))
        ''GNP-AAAA-AAAA-AAAA'') = Some (Some (t_2025 - 10))
   \<and> fst (activate_license
            (snd (activate_license sample_db (t_2025 - 10) (t_2025 - 10)
                    (sample_request (Some ''device-A''))))
            (t_2025 - 5) (t_2025 - 5) (sample_request (Some ''device-A'')))
       = (Activate_success t_2025 ''monthly'' None, 200)
   \<and> map_option activated_at
        (select_license
           (licenses (snd (activate_license
              (snd (activate_license sample_db (t_2025 - 10) (t_2025 - 10)
                      (sample_request (Some ''device-A''))))
              (t_2025 - 5) (t_2025 - 5) (sample_request (Some ''device-A'')))))
           ''GNP-AAAA-AAAA-AAAA'') = Some (Some (t_2025 - 5))"
  by (simp add: activate_license_def Let_def sample_defs)

text \<open>
  Claim C9. Every deactivate request is answered with \<open>success: true\<close> and status 200,
  and appends one \<open>deactivate\<close> entry to the log, whether or not anything matched. When
  the key is absent, the license table is unchanged. When the stored device differs
  from the requesting one, the record is unchanged. When the stored device is the
  requesting one, the record loses its device and its \<open>is_used\<close> flag. A record changes
  only if it is the record of the requested key and its stored device equals the
  requesting device.
\<close>

theorem deactivate_always_succeeds:
  "fst (deactivate_license db req) = (Deactivate_success, 200)
   \<and> activation_logs (snd (deactivate_license db req))
       = activation_logs db @
           [\<lparr>log_license_key = upper (json_license_key req),
             log_device_id = json_device_id req, log_action = ''deactivate'',
             log_ip_address = remote_addr req\<rparr>]
   \<and> (select_license (licenses db) (upper (json_license_key req)) = None \<longrightarrow>
         licenses (snd (deactivate_license db req)) = licenses db)
   \<and> (\<forall>r. select_license (licenses db) (upper (json_license_key req)) = Some r
          \<and> device_id r \<noteq> json_device_id req \<longrightarrow>
         select_license (licenses (snd (deactivate_license db req)))
           (upper (json_license_key req)) = Some r)
   \<and> (\<forall>r d. select_license (licenses db) (upper (json_license_key req)) = Some r
          \<and> device_id r = Some d \<and> json_device_id req = Some d \<longrightarrow>
         select_license (licenses (snd (deactivate_license db req)))
           (upper (json_license_key req)) = Some (r\<lparr>device_id := None, is_used := False\<rparr>))
   \<and> (\<forall>k r. select_license (licenses (snd (deactivate_license db req))) k
               \<noteq> select_license (licenses db) k
          \<and> select_license (licenses db) k = Some r \<longrightarrow>
         k = upper (json_license_key req) \<and> device_id r = json_device_id req)"
proof -
  have 1: "fst (deactivate_license db req) = (Deactivate_success, 200)"
    by (simp add: deactivate_license_def Let_def jsonify_def)
  have 2: "activation_logs (snd (deactivate_license db req))
       = activation_logs db @
           [\<lparr>log_license_key = upper (json_license_key req),
             log_device_id = json_device_id req, log_action = ''deactivate'',
             log_ip_address = remote_addr req\<rparr>]"
    by (simp add: deactivate_license_def Let_def)
  have 3: "select_license (licenses db) (upper (json_license_key req)) = None \<longrightarrow>
         licenses (snd (deactivate_license db req)) = licenses db"
    by (simp add: deactivate_license_def Let_def select_None_update_where)
  have 4: "select_license (licenses (snd (deactivate_license db req)))
           (upper (json_license_key req)) = Some r"
    if "select_license (licenses db) (upper (json_license_key req)) = Some r"
      and "device_id r \<noteq> json_device_id req" for r
    using that sql_eq_imp_eq [of "device_id r" "json_device_id req"]
    by (auto simp: deactivate_license_def Let_def select_update_where)
  have 5: "select_license (licenses (snd (deactivate_license db req)))
           (upper (json_license_key req)) = Some (r\<lparr>device_id := None, is_used := False\<rparr>)"
    if "select_license (licenses db) (upper (json_license_key req)) = Some r"
      and "device_id r = Some d" and "json_device_id req = Some d" for r d
    using that select_license_key [OF that(1)]
    by (simp add: deactivate_license_def Let_def select_update_where)
  have 6: "k = upper (json_license_key req) \<and> device_id r = json_device_id req"
    if "select_license (licenses (snd (deactivate_license db req))) k
               \<noteq> select_license (licenses db) k"
      and "select_license (licenses db) k = Some r" for k r
    using that select_license_key [OF that(2)]
      sql_eq_imp_eq [of "device_id r" "json_device_id req"]
    by (auto simp: deactivate_license_def Let_def select_update_where split: if_splits)
  show ?thesis
    using 1 2 3 4 5 6 by blast
qed

text \<open>
  Claim C9, witness: on the license bound to \<open>device-A\<close>, the request of \<open>device-B\<close>
  leaves the record as it is and the request of \<open>device-A\<close> clears it; a request for a key
  that no license has leaves the table as it is.
\<close>

theorem deactivate_always_succeeds_witness:
  "select_license (licenses bound_db)
     (upper (json_license_key (sample_request (Some ''device-B'')))) = Some bound_license
   \<and> device_id bound_license \<noteq> json_device_id (sample_request (Some ''device-B''))
   \<and> select_license (licenses (snd (deactivate_license bound_db
          (sample_request (Some ''device-B''))))) ''GNP-AAAA-AAAA-AAAA'' = Some bound_license
   \<and> device_id bound_license = Some ''device-A''
   \<and> json_device_id (sample_request (Some ''device-A'')) = Some ''device-A''
   \<and> select_license (licenses (snd (deactivate_license bound_db
          (sample_request (Some ''device-A''))))) ''GNP-AAAA-AAAA-AAAA''
       = Some (bound_license\<lparr>device_id := None, is_used := False\<rparr>)
   \<and> select_license (licenses init_database)
        (upper (json_license_key (sample_request (Some ''device-A'')))) = None
   \<and> licenses (snd (deactivate_license init_database (sample_request (Some ''device-A''))))
       = licenses init_database"
proof -
  let ?a = "sample_request (Some ''device-A'')"
  let ?b = "sample_request (Some ''device-B'')"
  have up: "upper (json_license_key (sample_request d)) = ''GNP-AAAA-AAAA-AAAA''" for d
    by (simp add: sample_defs)
  have found: "select_license (licenses bound_db) ''GNP-AAAA-AAAA-AAAA'' = Some bound_license"
    by (simp add: sample_defs)
  have other: "device_id bound_license \<noteq> json_device_id ?b"
    and own: "device_id bound_license = Some ''device-A''"
      "json_device_id ?a = Some ''device-A''"
    by (simp_all add: sample_defs)
  have absent: "select_license (licenses init_database) ''GNP-AAAA-AAAA-AAAA'' = None"
    by (simp add: init_database_def select_license_def)
  from deactivate_always_succeeds [of bound_db ?b] found other
  have 1: "select_license (licenses (snd (deactivate_license bound_db ?b)))
             ''GNP-AAAA-AAAA-AAAA'' = Some bound_license"
    unfolding up by blast
  from deactivate_always_succeeds [of bound_db ?a] found own
  have 2: "select_license (licenses (snd (deactivate_license bound_db ?a)))
             ''GNP-AAAA-AAAA-AAAA''
           = Some (bound_license\<lparr>device_id := None, is_used := False\<rparr>)"
    unfolding up by blast
  from deactivate_always_succeeds [of init_database ?a] absent
  have 3: "licenses (snd (deactivate_license init_database ?a)) = licenses init_database"
    unfolding up by blast
  from found other own absent 1 2 3 show ?thesis
    unfolding up by blast
qed

section \<open>The record invariant\<close>

lemma invariant_insert_log [simp]:
  "record_invariant (insert_log db k d a ip) = record_invariant db"
  by (simp add: record_invariant_def)














end
